theory Spec2Isabelle
  imports Main "HOL-Library.Word"
begin

section \<open>Package sakura: data model\<close>

text \<open>
  The Go package declares the configuration types of a Sakura tree-hash encoder, the
  interfaces of the hop tree it consumes, and an \<open>Encoder\<close> whose two methods are
  stubs. Byte slices are lists of 8-bit words; a nil slice is \<open>None\<close>.
\<close>

type_synonym byte = "8 word"
type_synonym bytes = "byte list"

subsection \<open>BlockSize\<close>

text \<open>
  \<^verbatim>\<open>type BlockSize struct { Mantissa uint8; Exponent uint8 }\<close>
\<close>

record BlockSize =
  Mantissa :: "8 word"
  Exponent :: "8 word"

text \<open>
  \<^verbatim>\<open>func (bs BlockSize) Value() int { return 1 << bs.Exponent * (2*int(bs.Mantissa) + 1) }\<close>

  In Go \<open><<\<close> and \<open>*\<close> have the same precedence and associate to the left, so the
  body is \<open>(1 << bs.Exponent) * (2*int(bs.Mantissa) + 1)\<close>. The untyped constant \<open>1\<close>
  takes the type \<open>int\<close> of the other operand; the shift count is the unsigned
  \<open>uint8\<close>, and a count of at least the width of \<open>int\<close> shifts every bit out, which
  is what \<open>push_bit\<close> does on a word. \<open>int(bs.Mantissa)\<close> zero-extends. The
  multiplication and the addition wrap around modulo \<open>2 ^ w\<close>.

  \<open>Value_w\<close> is the computation at an arbitrary width \<open>w\<close> of \<open>int\<close>; \<open>Value\<close> reads
  the result as the signed \<open>int\<close> of a 64-bit platform.
\<close>

definition Value_w :: "BlockSize \<Rightarrow> 'w::len word" where
  "Value_w bs = push_bit (unat (Exponent bs)) 1 * (2 * ucast (Mantissa bs) + 1)"

definition Value :: "BlockSize \<Rightarrow> int" where
  "Value bs = sint (Value_w bs :: 64 word)"

text \<open>The formula of the doc comment, \<open>Pow(2, Exponent) * (2 * Mantissa + 1)\<close>, over the
  unbounded integers.\<close>

definition block_size_formula :: "BlockSize \<Rightarrow> int" where
  "block_size_formula bs = 2 ^ unat (Exponent bs) * (2 * uint (Mantissa bs) + 1)"

subsection \<open>Errors\<close>

text \<open>
  Go's \<open>error\<close> is an open interface. \<open>errorString\<close> is the value that
  \<open>errors.New(text)\<close> builds, the only error the package constructs.
  \<open>SourceReadFailed\<close> and \<open>HashFactoryFailed\<close> are the two error kinds the
  specification names for failures raised by the collaborators (a message hop's reader,
  the base hash); no function of the package constructs either.

  An error value here stands for the kind and the text of a Go error, not for its
  identity: \<open>errors.New\<close> returns a fresh pointer at every call, so two errors built
  from the same text are unequal under Go's \<open>==\<close> although their models are equal.
  Nothing below compares the errors of two calls.
\<close>

datatype error =
    errorString string
  | SourceReadFailed string
  | HashFactoryFailed string

definition errors_New :: "string \<Rightarrow> error" where
  "errors_New text = errorString text"

fun is_SourceReadFailed :: "error \<Rightarrow> bool" where
  "is_SourceReadFailed (SourceReadFailed s) = True"
| "is_SourceReadFailed (errorString s) = False"
| "is_SourceReadFailed (HashFactoryFailed s) = False"

fun is_HashFactoryFailed :: "error \<Rightarrow> bool" where
  "is_HashFactoryFailed (HashFactoryFailed s) = True"
| "is_HashFactoryFailed (errorString s) = False"
| "is_HashFactoryFailed (SourceReadFailed s) = False"

subsection \<open>HashingMode\<close>

text \<open>
  \<^verbatim>\<open>type Hasher func() hash.Hash\<close>

  A \<open>hash.Hash\<close> is represented by the digest a fresh instance gives for the bytes
  written to it; a factory that yields no usable instance returns \<open>None\<close>.
\<close>

type_synonym Hash = "bytes \<Rightarrow> bytes"
type_synonym Hasher = "unit \<Rightarrow> Hash option"

record HashingMode =
  Hash :: Hasher
  Kangaroo :: bool
  Alignment :: "8 word"
  Interleave :: BlockSize

subsection \<open>Hops and the state of the collaborators\<close>

text \<open>
  A \<open>Hop\<close> is an interface value: a reference to an object owned by the caller, which
  also implements exactly one of \<open>ChainingHop\<close> (\<open>Degree\<close> is the length of the
  list of children, \<open>Child i\<close> its \<open>i\<close>-th element) and \<open>MessageHop\<close> (an
  \<open>io.Reader\<close>). The topology is immutable; what the methods of a hop can read or change
  lives in the \<open>world\<close>, keyed by the hop's reference.
\<close>

type_synonym hop_ref = nat

datatype Hop =
    ChainingHop hop_ref "Hop list"
  | MessageHop hop_ref

fun ref :: "Hop \<Rightarrow> hop_ref" where
  "ref (ChainingHop r cs) = r"
| "ref (MessageHop r) = r"

text \<open>The calls a function of the package can make on its collaborators.\<close>

datatype call =
    Call_Hash
  | Call_Read hop_ref
  | Call_Child hop_ref int
  | Call_Degree hop_ref
  | Call_ChainingValue hop_ref
  | Call_SetChainingValue hop_ref bytes

text \<open>
  \<open>cache_slot w r\<close> is what \<open>ChainingValue()\<close> of hop \<open>r\<close> returns (\<open>None\<close> is
  nil), \<open>unread w r\<close> the bytes the reader of message hop \<open>r\<close> has still to deliver,
  \<open>read_error w r\<close> the error its stream ends with (\<open>None\<close> is a clean \<open>io.EOF\<close>),
  and \<open>calls w\<close> the calls made on the collaborators so far, oldest first.
\<close>

record world =
  cache_slot :: "hop_ref \<Rightarrow> bytes option"
  unread :: "hop_ref \<Rightarrow> bytes"
  read_error :: "hop_ref \<Rightarrow> error option"
  calls :: "call list"

subsection \<open>Encoder\<close>

text \<open>
  \<^verbatim>\<open>type Encoder struct { mode HashingMode }\<close>
  \<^verbatim>\<open>func New(mode HashingMode) *Encoder { return &Encoder{mode: mode} }\<close>
\<close>

record Encoder =
  mode :: HashingMode

definition New :: "HashingMode \<Rightarrow> Encoder" where
  "New m = \<lparr>mode = m\<rparr>"

text \<open>
  \<^verbatim>\<open>func (e *Encoder) Final(hop Hop) (hash []byte, err error) {
      return nil, errors.New("not implemented") }\<close>
  \<^verbatim>\<open>func (e *Encoder) Inner(hop Hop) (hash []byte, err error) {
      return nil, errors.New("not implemented") }\<close>

  Both results of the Go function are kept, as a pair of options, next to the state of
  the collaborators after the call. Neither body touches the encoder, the hop or any
  collaborator.
\<close>

definition Final :: "Encoder \<Rightarrow> Hop \<Rightarrow> world \<Rightarrow> (bytes option \<times> error option) \<times> world" where
  "Final e hop w = ((None, Some (errors_New ''not implemented'')), w)"

definition Inner :: "Encoder \<Rightarrow> Hop \<Rightarrow> world \<Rightarrow> (bytes option \<times> error option) \<times> world" where
  "Inner e hop w = ((None, Some (errors_New ''not implemented'')), w)"

text \<open>The three components of the outcome of a call.\<close>

definition digest_of :: "(bytes option \<times> error option) \<times> world \<Rightarrow> bytes option" where
  "digest_of r = fst (fst r)"

definition err_of :: "(bytes option \<times> error option) \<times> world \<Rightarrow> error option" where
  "err_of r = snd (fst r)"

definition world_after :: "(bytes option \<times> error option) \<times> world \<Rightarrow> world" where
  "world_after r = snd r"

subsection \<open>A concrete scenario\<close>

text \<open>
  A root chaining hop of degree 2 over two message hops holding \<open>"ab"\<close> and \<open>"cd"\<close>,
  all cache slots empty and all streams readable, under a mode without kangaroo hopping,
  alignment or interleaving, whose base hash is a one-byte additive checksum.
\<close>

definition sum_hash :: Hash where
  "sum_hash bs = [sum_list bs]"

definition mode_ab :: HashingMode where
  "mode_ab = \<lparr>Hash = (\<lambda>u. Some sum_hash), Kangaroo = False, Alignment = 0,
     Interleave = \<lparr>Mantissa = 0, Exponent = 0\<rparr>\<rparr>"

definition root_ab :: Hop where
  "root_ab = ChainingHop 0 [MessageHop 1, MessageHop 2]"

definition world_ab :: world where
  "world_ab = \<lparr>cache_slot = (\<lambda>r. None),
     unread = (\<lambda>r. if r = 1 then [0x61, 0x62] else if r = 2 then [0x63, 0x64] else []),
     read_error = (\<lambda>r. None),
     calls = []\<rparr>"

text \<open>
  The digest the specification expects of \<open>Final\<close> in this scenario, for a base hash
  \<open>H\<close>: the hash of \<open>"ab" || "cd" || degree=2 || final-marker=0x01\<close>. The specification
  leaves the width of the degree field open; one byte is taken here.
\<close>

definition expected_digest_ab :: "Hash \<Rightarrow> bytes" where
  "expected_digest_ab H = H ([0x61, 0x62] @ [0x63, 0x64] @ [0x02] @ [0x01])"

section \<open>BlockSize.Value\<close>

text \<open>At every width the result is the formula of the doc comment, reduced modulo
  \<open>2 ^ w\<close>.\<close>

lemma Value_w_as_of_int:
  "(Value_w bs :: 'w::len word) = word_of_int (block_size_formula bs)"
  by (simp add: Value_w_def block_size_formula_def push_bit_eq_mult)

lemma block_size_formula_pos: "0 < block_size_formula bs"
  by (simp add: block_size_formula_def add_pos_nonneg)

lemma Value_signed: "Value bs = signed_take_bit 63 (block_size_formula bs)"
  unfolding Value_def Value_w_as_of_int by (simp add: sint_sbintrunc')

text \<open>\<open>Value\<close> is the formula exactly when the formula fits the signed 64-bit \<open>int\<close>.\<close>

lemma Value_exact_iff:
  "Value bs = block_size_formula bs \<longleftrightarrow> block_size_formula bs < 2 ^ 63"
proof -
  have "signed_take_bit 63 (block_size_formula bs) = block_size_formula bs
    \<longleftrightarrow> - (2 ^ 63) \<le> block_size_formula bs \<and> block_size_formula bs < 2 ^ 63"
    by (rule signed_take_bit_int_eq_self_iff)
  with block_size_formula_pos [of bs] show ?thesis
    by (simp add: Value_signed)
qed

lemma Value_boundary_values:
  "Value \<lparr>Mantissa = 0, Exponent = 0\<rparr> = 1"
  "Value \<lparr>Mantissa = 3, Exponent = 2\<rparr> = 28"
  by (simp_all add: Value_def Value_w_def)

text \<open>A shift by at least the width of \<open>int\<close> leaves nothing of the constant \<open>1\<close>.\<close>

lemma Value_w_shifted_out:
  assumes "LENGTH('w::len) \<le> unat (Exponent bs)"
  shows "(Value_w bs :: 'w word) = 0"
proof -
  from assms have "(2 :: 'w word) ^ unat (Exponent bs) = 0"
    by simp
  then show ?thesis
    unfolding Value_w_def push_bit_eq_mult by (simp only: mult_zero_right mult_zero_left)
qed

lemma Value_Exponent_ge_64: "64 \<le> unat (Exponent bs) \<Longrightarrow> Value bs = 0"
  by (simp add: Value_def Value_w_shifted_out)

text \<open>A shift by 63 moves the \<open>1\<close> into the sign bit, and an odd factor keeps it
  there.\<close>

lemma Value_Exponent_63:
  assumes "unat (Exponent bs) = 63"
  shows "Value bs = - (2 ^ 63)"
proof -
  have z: "(2 :: 64 word) ^ 64 = 0"
    by simp
  define x :: "64 word" where "x = ucast (Mantissa bs)"
  have "(Value_w bs :: 64 word) = 2 ^ 63 * (2 * x + 1)"
    using assms by (simp add: Value_w_def push_bit_eq_mult x_def)
  also have "\<dots> = 2 ^ 64 * x + 2 ^ 63"
    by (simp add: algebra_simps)
  also have "\<dots> = 2 ^ 63"
    unfolding z by simp
  finally show ?thesis by (simp add: Value_def)
qed

lemma Value_not_positive: "63 \<le> unat (Exponent bs) \<Longrightarrow> Value bs \<le> 0"
  using Value_Exponent_ge_64 [of bs] Value_Exponent_63 [of bs]
  by (cases "unat (Exponent bs) = 63") auto

text \<open>
  Claim C3. The claim is that \<open>Value()\<close> returns exactly
  \<open>2^Exponent * (2*Mantissa + 1)\<close> for every \<open>BlockSize\<close>. At
  \<open>BlockSize{Mantissa: 0, Exponent: 64}\<close> the formula is \<open>2^64\<close>, and the code returns
  \<open>0\<close>: the shift has pushed the \<open>1\<close> out of the 64-bit \<open>int\<close>.
\<close>

theorem Value_Exponent_64_returns_zero:
  "Value \<lparr>Mantissa = 0, Exponent = 64\<rparr> = 0 \<and>
   block_size_formula \<lparr>Mantissa = 0, Exponent = 64\<rparr> = 2 ^ 64"
  by (simp add: Value_def Value_w_def block_size_formula_def)

text \<open>
  Claim C4. The claim is that \<open>Value()\<close> is positive for every \<open>BlockSize\<close>, the
  wrap-around of the machine integer taken into account. At
  \<open>BlockSize{Mantissa: 0, Exponent: 63}\<close> the code returns the least 64-bit integer,
  which is negative, where the formula is \<open>2^63\<close>.
\<close>

theorem Value_Exponent_63_returns_negative:
  "Value \<lparr>Mantissa = 0, Exponent = 63\<rparr> = - 9223372036854775808 \<and>
   Value \<lparr>Mantissa = 0, Exponent = 63\<rparr> < 0 \<and>
   block_size_formula \<lparr>Mantissa = 0, Exponent = 63\<rparr> = 9223372036854775808"
  by (simp add: Value_def Value_w_def block_size_formula_def)

section \<open>Encoder.Final and Encoder.Inner\<close>

text \<open>What every call returns: no digest, the error built from \<open>"not implemented"\<close>, and
  the collaborators as they were.\<close>

lemma Final_result: "Final e hop w = ((None, Some (errorString ''not implemented'')), w)"
  by (simp add: Final_def errors_New_def)

lemma Inner_result: "Inner e hop w = ((None, Some (errorString ''not implemented'')), w)"
  by (simp add: Inner_def errors_New_def)

lemma scenario_ab_facts:
  "Kangaroo (mode (New mode_ab)) = False"
  "Alignment (mode (New mode_ab)) = 0"
  "Interleave (mode (New mode_ab)) = \<lparr>Mantissa = 0, Exponent = 0\<rparr>"
  "Hash (mode (New mode_ab)) () = Some sum_hash"
  "unread world_ab 1 = [0x61, 0x62]"
  "unread world_ab 2 = [0x63, 0x64]"
  "read_error world_ab r = None"
  "cache_slot world_ab r = None"
  "calls world_ab = []"
  by (simp_all add: New_def mode_ab_def world_ab_def)

subsection \<open>The concrete scenario\<close>

text \<open>
  Claim C1, as stated, fails. The claim is that in the concrete scenario \<open>Final(root)\<close>
  returns exactly the digest of \<open>"ab" || "cd" || degree=2 || final-marker=0x01\<close> under
  the configured base hash. In the scenario, with the additive checksum as base hash,
  \<open>Final\<close> returns a nil digest and a non-nil error, so its digest is not the expected one
  (nor any other).
\<close>

theorem Final_ab_not_expected_digest:
  "Hash (mode (New mode_ab)) () = Some sum_hash \<and>
   digest_of (Final (New mode_ab) root_ab world_ab) = None \<and>
   digest_of (Final (New mode_ab) root_ab world_ab) \<noteq> Some (expected_digest_ab sum_hash) \<and>
   err_of (Final (New mode_ab) root_ab world_ab) = Some (errorString ''not implemented'')"
  by (simp add: digest_of_def err_of_def Final_result scenario_ab_facts)

text \<open>
  Claim C1, amended. For a root chaining hop of degree 2 whose child 0 is a message hop
  with bytes \<open>"ab"\<close> and child 1 a message hop with bytes \<open>"cd"\<close>, under a mode with
  \<open>Kangaroo = false\<close>, \<open>Alignment = 0\<close> and the zero \<open>Interleave\<close>, \<open>Final(root)\<close>
  returns a nil digest and the error \<open>"not implemented"\<close>, and leaves the collaborators
  untouched: nothing is fed to the base hash.
\<close>

theorem Final_concrete_scenario:
  assumes "Kangaroo (mode e) = False"
    and "Alignment (mode e) = 0"
    and "Interleave (mode e) = \<lparr>Mantissa = 0, Exponent = 0\<rparr>"
    and "unread w 1 = [0x61, 0x62]"
    and "unread w 2 = [0x63, 0x64]"
  shows "Final e (ChainingHop 0 [MessageHop 1, MessageHop 2]) w =
    ((None, Some (errorString ''not implemented'')), w)"
  by (rule Final_result)

theorem Final_concrete_scenario_witness:
  "Kangaroo (mode (New mode_ab)) = False \<and>
   Alignment (mode (New mode_ab)) = 0 \<and>
   Interleave (mode (New mode_ab)) = \<lparr>Mantissa = 0, Exponent = 0\<rparr> \<and>
   unread world_ab 1 = [0x61, 0x62] \<and>
   unread world_ab 2 = [0x63, 0x64] \<and>
   Final (New mode_ab) root_ab world_ab =
     ((None, Some (errorString ''not implemented'')), world_ab)"
proof -
  have k: "Kangaroo (mode (New mode_ab)) = False"
    and a: "Alignment (mode (New mode_ab)) = 0"
    and i: "Interleave (mode (New mode_ab)) = \<lparr>Mantissa = 0, Exponent = 0\<rparr>"
    and u1: "unread world_ab 1 = [0x61, 0x62]"
    and u2: "unread world_ab 2 = [0x63, 0x64]"
    by (rule scenario_ab_facts)+
  from Final_concrete_scenario [OF k a i u1 u2] k a i u1 u2 show ?thesis
    unfolding root_ab_def by blast
qed

subsection \<open>Results and errors\<close>

text \<open>
  Claim C2, as stated, fails. The claim is that on a well-formed finite hop tree with a
  working base hash factory and readable message streams, \<open>Inner\<close> and \<open>Final\<close> return a
  non-nil digest and a nil error. The scenario's tree is such a tree (the factory yields
  a hash, no stream ends in an error), and both calls return a nil digest and a non-nil
  error.
\<close>

theorem Final_Inner_fail_on_working_tree:
  "Hash (mode (New mode_ab)) () \<noteq> None \<and>
   read_error world_ab 1 = None \<and>
   read_error world_ab 2 = None \<and>
   digest_of (Final (New mode_ab) root_ab world_ab) = None \<and>
   err_of (Final (New mode_ab) root_ab world_ab) \<noteq> None \<and>
   digest_of (Inner (New mode_ab) root_ab world_ab) = None \<and>
   err_of (Inner (New mode_ab) root_ab world_ab) \<noteq> None"
  by (simp add: digest_of_def err_of_def Final_result Inner_result scenario_ab_facts)

text \<open>
  Claim C2, amended. For every hop tree, every mode and every state of the collaborators,
  whether or not the base hash factory works and the streams are readable, \<open>Inner(hop)\<close>
  and \<open>Final(hop)\<close> return a nil digest and the error \<open>"not implemented"\<close>; that
  error comes from neither the factory nor a stream.
\<close>

theorem Final_Inner_always_not_implemented:
  "digest_of (Final e hop w) = None \<and>
   err_of (Final e hop w) = Some (errors_New ''not implemented'') \<and>
   digest_of (Inner e hop w) = None \<and>
   err_of (Inner e hop w) = Some (errors_New ''not implemented'')"
  by (simp add: digest_of_def err_of_def Final_def Inner_def)

text \<open>
  Claim C8, as stated, fails. The claim is that every non-nil error returned by \<open>Inner\<close>
  or \<open>Final\<close> is a \<open>SourceReadFailed\<close> or a \<open>HashFactoryFailed\<close> error. In the
  scenario \<open>Final\<close> returns the error built by \<open>errors.New("not implemented")\<close>, which
  is of neither kind.
\<close>

theorem Final_ab_error_of_neither_kind:
  "err_of (Final (New mode_ab) root_ab world_ab) = Some (errorString ''not implemented'') \<and>
   \<not> is_SourceReadFailed (errorString ''not implemented'') \<and>
   \<not> is_HashFactoryFailed (errorString ''not implemented'')"
  by (simp add: err_of_def Final_result)

text \<open>
  Claim C8, amended. Every error returned by \<open>Inner\<close> or \<open>Final\<close> is of exactly one
  kind: the error that \<open>errors.New("not implemented")\<close> builds. It is neither a
  \<open>SourceReadFailed\<close> nor a \<open>HashFactoryFailed\<close> error, and no error of any other
  kind is ever returned.
\<close>

theorem encoder_error_is_not_implemented:
  "err_of (Final e hop w) = Some (errors_New ''not implemented'') \<and>
   err_of (Inner e hop w) = Some (errors_New ''not implemented'') \<and>
   errors_New ''not implemented'' = errorString ''not implemented'' \<and>
   \<not> is_SourceReadFailed (errors_New ''not implemented'') \<and>
   \<not> is_HashFactoryFailed (errors_New ''not implemented'')"
  by (simp add: err_of_def Final_def Inner_def errors_New_def)

text \<open>
  Claim C9. For every hop and every mode, whenever \<open>Inner\<close> or \<open>Final\<close> returns a
  non-nil error, the digest it returns is nil.
\<close>

theorem error_implies_nil_digest:
  "(err_of (Final e hop w) \<noteq> None \<longrightarrow> digest_of (Final e hop w) = None) \<and>
   (err_of (Inner e hop w) \<noteq> None \<longrightarrow> digest_of (Inner e hop w) = None)"
  by (simp add: digest_of_def Final_def Inner_def)

theorem error_implies_nil_digest_witness:
  "err_of (Final (New mode_ab) root_ab world_ab) \<noteq> None \<and>
   digest_of (Final (New mode_ab) root_ab world_ab) = None \<and>
   err_of (Inner (New mode_ab) root_ab world_ab) \<noteq> None \<and>
   digest_of (Inner (New mode_ab) root_ab world_ab) = None"
proof -
  have f: "err_of (Final (New mode_ab) root_ab world_ab) \<noteq> None"
    by (simp add: err_of_def Final_result)
  have i: "err_of (Inner (New mode_ab) root_ab world_ab) \<noteq> None"
    by (simp add: err_of_def Inner_result)
  from error_implies_nil_digest [of "New mode_ab" root_ab world_ab] f i
  show ?thesis by blast
qed

subsection \<open>Final against Inner, and repeated calls\<close>

text \<open>
  Claim C5, as stated, fails. The claim is that for a chaining hop with at least one
  child the digest of \<open>Final(h)\<close> differs from the digest of \<open>Inner(h)\<close>. The
  scenario's root has two children, and the two digests are equal: both are nil.
\<close>

theorem Final_Inner_same_digest_ab:
  "digest_of (Final (New mode_ab) root_ab world_ab) =
   digest_of (Inner (New mode_ab) root_ab world_ab)"
  by (simp add: digest_of_def Final_result Inner_result)

text \<open>
  Claim C5, amended. For every hop \<open>h\<close>, a chaining hop with at least one child and a
  non-empty message hop included, and every fixed mode, the digest returned by
  \<open>Final(h)\<close> equals the digest returned by \<open>Inner(h)\<close>: both are nil.
\<close>

theorem Final_Inner_same_result:
  "digest_of (Final e h w) = digest_of (Inner e h w) \<and>
   digest_of (Final e h w) = None"
  by (simp add: digest_of_def Final_def Inner_def)

text \<open>
  Claim C7. For every fixed hop tree and fixed mode, two calls to \<open>Final\<close> on the same
  tree return identical digests, and so do two calls to \<open>Inner\<close> on the same hop: the
  second call, made in the state the first one left, returns what the first returned,
  and the digest does not depend on the state of the collaborators at all.
\<close>

theorem Final_Inner_deterministic:
  "digest_of (Final e h (world_after (Final e h w))) = digest_of (Final e h w) \<and>
   digest_of (Inner e h (world_after (Inner e h w))) = digest_of (Inner e h w) \<and>
   digest_of (Final e h w) = digest_of (Final e h w') \<and>
   digest_of (Inner e h w) = digest_of (Inner e h w')"
  by (simp add: digest_of_def Final_def Inner_def)

subsection \<open>Effects on the collaborators\<close>

text \<open>
  Claim C6, as stated, fails. The claim includes that \<open>Inner\<close> writes its computed
  result to the root hop's cache slot. In the scenario, where the root's slot is empty
  and no call has been made, \<open>Inner(root)\<close> computes no digest, makes no call on any
  collaborator (so none of \<open>SetChainingValue\<close>), and the root's slot is still empty
  afterwards.
\<close>

theorem Inner_ab_writes_no_cache_slot:
  "digest_of (Inner (New mode_ab) root_ab world_ab) = None \<and>
   calls (world_after (Inner (New mode_ab) root_ab world_ab)) = [] \<and>
   cache_slot (world_after (Inner (New mode_ab) root_ab world_ab)) (ref root_ab) = None"
  by (simp add: digest_of_def world_after_def Inner_result scenario_ab_facts)

text \<open>
  Claim C6, amended. For every hop, \<open>Final\<close> never calls \<open>SetChainingValue\<close> on any hop,
  and neither does \<open>Inner\<close>: the encoder stores no value in any hop's cache slot, so no
  slot ever holds a \<open>Final\<close> output; \<open>Inner\<close> computes no chaining value and leaves the
  root hop's cache slot as it found it.
\<close>

theorem encoder_never_sets_chaining_value:
  "calls (world_after (Final e h w)) = calls w \<and>
   cache_slot (world_after (Final e h w)) = cache_slot w \<and>
   calls (world_after (Inner e h w)) = calls w \<and>
   cache_slot (world_after (Inner e h w)) = cache_slot w \<and>
   digest_of (Inner e h w) = None"
  by (simp add: digest_of_def world_after_def Final_def Inner_def)

text \<open>
  Claim C10. For every mode and every hop, a call to \<open>Final\<close> or \<open>Inner\<close> has no
  effect on its inputs: the state of the collaborators after the call is the state
  before it, so the base hash factory has not been invoked, no byte of a message hop has
  been read, no child enumerated and no \<open>SetChainingValue\<close> called.
\<close>

theorem encoder_has_no_effect:
  "world_after (Final e h w) = w \<and>
   world_after (Inner e h w) = w \<and>
   calls (world_after (Final e h w)) = calls w \<and>
   unread (world_after (Final e h w)) = unread w \<and>
   calls (world_after (Inner e h w)) = calls w \<and>
   unread (world_after (Inner e h w)) = unread w"
  by (simp add: world_after_def Final_def Inner_def)

end
